theory Spec2Isabelle
  imports Main "HOL-Library.Word"
begin

section \<open>CommonCryptorSPI.h: the private enumerations and the parameter type\<close>

text \<open>
  The header \<^verbatim>\<open>Sources/CommonCryptoSPI/include/CommonCryptorSPI.h\<close> consists of
  three anonymous \<^verbatim>\<open>enum\<close> declarations, one \<^verbatim>\<open>typedef\<close> and six function
  prototypes. The prototypes have no bodies in the repository, so the part of the header
  that computes anything is the enumerations: C assigns every enumeration constant a value
  of type \<^verbatim>\<open>int\<close>, from the text of the enumerator list.
\<close>

subsection \<open>Enumerator lists and the values C gives them\<close>

text \<open>
  An enumerator is written either with a constant (\<^verbatim>\<open>kCCModeXTS = 8\<close>) or without
  one (\<^verbatim>\<open>kCCParameterIV\<close>).
\<close>

datatype enumerator = Explicit string int | Implicit string

fun enumerator_name :: "enumerator \<Rightarrow> string" where
  "enumerator_name (Explicit name v) = name"
| "enumerator_name (Implicit name) = name"

text \<open>
  The rule of the C standard (6.7.2.2): an enumerator with \<^verbatim>\<open>=\<close> has the value
  written; the first enumerator without \<^verbatim>\<open>=\<close> has the value 0; every later one
  without \<^verbatim>\<open>=\<close> has the value of the previous constant plus 1. The first
  argument of \<open>enum_values_from\<close> is the value the next enumerator takes when it has no
  constant of its own.
\<close>

fun enum_values_from :: "int \<Rightarrow> enumerator list \<Rightarrow> (string \<times> int) list" where
  "enum_values_from n [] = []"
| "enum_values_from n (Explicit name v # es) = (name, v) # enum_values_from (v + 1) es"
| "enum_values_from n (Implicit name # es) = (name, n) # enum_values_from (n + 1) es"

definition enum_values :: "enumerator list \<Rightarrow> (string \<times> int) list" where
  "enum_values es = enum_values_from 0 es"

text \<open>The value of one enumeration constant, looked up by its identifier.\<close>

definition enum_constant :: "enumerator list \<Rightarrow> string \<Rightarrow> int option" where
  "enum_constant es name = map_of (enum_values es) name"

subsection \<open>The declarations of the header\<close>

text \<open>
  \<^verbatim>\<open>
  enum {
      kCCModeXTS        = 8,
      kCCModeGCM        = 11,
      kCCModeCCM        = 12,
  };
  \<close>
\<close>

definition private_modes :: "enumerator list" where
  "private_modes =
     [Explicit ''kCCModeXTS'' 8, Explicit ''kCCModeGCM'' 11, Explicit ''kCCModeCCM'' 12]"

text \<open>
  \<^verbatim>\<open>
  enum {
      kCCBoth        = 3,
  };
  \<close>
\<close>

definition private_direction :: "enumerator list" where
  "private_direction = [Explicit ''kCCBoth'' 3]"

text \<open>
  \<^verbatim>\<open>
  enum {
      kCCParameterIV,
      kCCParameterAuthData,
      kCCMacSize,
      kCCDataSize,
      kCCParameterAuthTag,
  };
  typedef uint32_t CCParameter;
  \<close>
\<close>

definition parameter_tags :: "enumerator list" where
  "parameter_tags =
     [Implicit ''kCCParameterIV'', Implicit ''kCCParameterAuthData'', Implicit ''kCCMacSize'',
      Implicit ''kCCDataSize'', Implicit ''kCCParameterAuthTag'']"

type_synonym CCParameter = "32 word"

text \<open>
  An enumeration constant is an \<^verbatim>\<open>int\<close>; passed as a \<^verbatim>\<open>CCParameter\<close>
  argument it is converted to \<^verbatim>\<open>uint32_t\<close>, that is, reduced modulo \<open>2 ^ 32\<close>.
\<close>

definition as_CCParameter :: "int \<Rightarrow> CCParameter" where
  "as_CCParameter v = word_of_int v"

definition parameter_tag :: "string \<Rightarrow> CCParameter option" where
  "parameter_tag name = map_option as_CCParameter (enum_constant parameter_tags name)"

section \<open>Properties of the value rule\<close>

lemma enum_values_from_names:
  "map fst (enum_values_from n es) = map enumerator_name es"
  by (induction n es rule: enum_values_from.induct) simp_all

lemma length_enum_values_from: "length (enum_values_from n es) = length es"
  by (induction n es rule: enum_values_from.induct) simp_all

text \<open>
  A list written without any constant counts upwards from the starting value, one by one.
\<close>

lemma enum_values_from_implicit:
  "map snd (enum_values_from n (map Implicit names)) = map (\<lambda>i. n + int i) [0..<length names]"
proof (induction names arbitrary: n)
  case Nil
  show ?case by simp
next
  case (Cons name names)
  have "map (\<lambda>i. n + int i) [0..<length (name # names)]
        = n # map (\<lambda>i. n + int i) (map Suc [0..<length names])"
    by (simp add: upt_conv_Cons map_Suc_upt del: upt_Suc)
  also have "\<dots> = n # map (\<lambda>i. (n + 1) + int i) [0..<length names]"
    by (simp add: algebra_simps)
  finally show ?case
    using Cons.IH [of "n + 1"] by simp
qed

lemma enum_values_implicit:
  "map snd (enum_values (map Implicit names)) = map int [0..<length names]"
  using enum_values_from_implicit [of 0 names] by (simp add: enum_values_def)

lemma parameter_tags_all_implicit:
  "parameter_tags = map Implicit
     [''kCCParameterIV'', ''kCCParameterAuthData'', ''kCCMacSize'', ''kCCDataSize'',
      ''kCCParameterAuthTag'']"
  by (simp add: parameter_tags_def)

lemma parameter_tag_values_consecutive:
  "map snd (enum_values parameter_tags) = map int [0..<5]"
  unfolding parameter_tags_all_implicit
  by (subst enum_values_implicit) (simp add: eval_nat_numeral)

lemma enum_names_distinct:
  "distinct (map fst (enum_values private_modes @ enum_values private_direction
     @ enum_values parameter_tags))"
  by (simp add: enum_values_def private_modes_def private_direction_def parameter_tags_def)

lemma CCParameter_range: "unat (p :: CCParameter) < 2 ^ 32"
  using unsigned_less [of p, where ?'a = nat] by simp

section \<open>The constants of the header\<close>

text \<open>
  C10. The private modes are \<^verbatim>\<open>kCCModeXTS = 8\<close>, \<^verbatim>\<open>kCCModeGCM = 11\<close> and
  \<^verbatim>\<open>kCCModeCCM = 12\<close>; the private direction is \<^verbatim>\<open>kCCBoth = 3\<close>; the parameter
  tags, written without constants, take the consecutive values 0 to 4 in the order
  \<^verbatim>\<open>kCCParameterIV\<close>, \<^verbatim>\<open>kCCParameterAuthData\<close>, \<^verbatim>\<open>kCCMacSize\<close>,
  \<^verbatim>\<open>kCCDataSize\<close>, \<^verbatim>\<open>kCCParameterAuthTag\<close>; and \<^verbatim>\<open>CCParameter\<close> is an
  unsigned integer of 32 bits, in which the five tags keep their values.
\<close>

theorem private_enumeration_constants:
  "enum_values private_modes = [(''kCCModeXTS'', 8), (''kCCModeGCM'', 11), (''kCCModeCCM'', 12)]
   \<and> enum_values private_direction = [(''kCCBoth'', 3)]
   \<and> enum_values parameter_tags =
       [(''kCCParameterIV'', 0), (''kCCParameterAuthData'', 1), (''kCCMacSize'', 2),
        (''kCCDataSize'', 3), (''kCCParameterAuthTag'', 4)]
   \<and> enum_constant private_modes ''kCCModeXTS'' = Some 8
   \<and> enum_constant private_modes ''kCCModeGCM'' = Some 11
   \<and> enum_constant private_modes ''kCCModeCCM'' = Some 12
   \<and> enum_constant private_direction ''kCCBoth'' = Some 3
   \<and> map (\<lambda>name. map_option unat (parameter_tag name))
         [''kCCParameterIV'', ''kCCParameterAuthData'', ''kCCMacSize'', ''kCCDataSize'',
          ''kCCParameterAuthTag'']
       = [Some 0, Some 1, Some 2, Some 3, Some 4]
   \<and> size (as_CCParameter v) = 32
   \<and> uint (as_CCParameter v) = v mod 2 ^ 32
   \<and> uint (as_CCParameter (- 1)) = 2 ^ 32 - 1"
proof -
  have modes: "enum_values private_modes
      = [(''kCCModeXTS'', 8), (''kCCModeGCM'', 11), (''kCCModeCCM'', 12)]"
    by (simp add: enum_values_def private_modes_def)
  have direction: "enum_values private_direction = [(''kCCBoth'', 3)]"
    by (simp add: enum_values_def private_direction_def)
  have tags: "enum_values parameter_tags =
       [(''kCCParameterIV'', 0), (''kCCParameterAuthData'', 1), (''kCCMacSize'', 2),
        (''kCCDataSize'', 3), (''kCCParameterAuthTag'', 4)]"
    by (simp add: enum_values_def parameter_tags_def)
  have lookups: "enum_constant private_modes ''kCCModeXTS'' = Some 8"
    "enum_constant private_modes ''kCCModeGCM'' = Some 11"
    "enum_constant private_modes ''kCCModeCCM'' = Some 12"
    "enum_constant private_direction ''kCCBoth'' = Some 3"
    by (simp_all add: enum_constant_def modes direction)
  have words: "map (\<lambda>name. map_option unat (parameter_tag name))
         [''kCCParameterIV'', ''kCCParameterAuthData'', ''kCCMacSize'', ''kCCDataSize'',
          ''kCCParameterAuthTag'']
       = [Some 0, Some 1, Some 2, Some 3, Some 4]"
    by (simp add: parameter_tag_def enum_constant_def tags as_CCParameter_def)
  have width: "size (as_CCParameter v) = 32"
    by (simp add: word_size)
  have reduce: "uint (as_CCParameter v) = v mod 2 ^ 32"
    by (simp add: as_CCParameter_def uint_word_of_int take_bit_eq_mod)
  have top: "uint (as_CCParameter (- 1)) = 2 ^ 32 - 1"
    by (simp add: as_CCParameter_def unsigned_minus_1_eq_mask mask_eq_exp_minus_1)
  from modes direction tags lookups words width reduce top show ?thesis
    by (intro conjI)
qed

end
